theory Spec2Isabelle
  imports Main "HOL-Library.Word" "HOL-Library.Sublist"
begin

section \<open>The todo engine of \<open>hooks/useTodos.ts\<close>\<close>

subsection \<open>Strings and \<open>String.prototype.trim\<close>\<close>

text \<open>
  A JavaScript string is a sequence of UTF-16 code units. \<open>trim\<close> is a built-in of the
  language, not code of the repository; it is modelled from ECMAScript: it removes the
  leading and the trailing run of WhiteSpace and LineTerminator code points, all of which
  are single code units.
\<close>

type_synonym js_string = "16 word list"

definition isWhiteSpace :: "16 word \<Rightarrow> bool" where
  "isWhiteSpace c =
     (c = 0x0009 \<or> c = 0x000A \<or> c = 0x000B \<or> c = 0x000C \<or> c = 0x000D \<or> c = 0x0020
      \<or> c = 0x00A0 \<or> c = 0x1680 \<or> (0x2000 \<le> c \<and> c \<le> 0x200A) \<or> c = 0x2028
      \<or> c = 0x2029 \<or> c = 0x202F \<or> c = 0x205F \<or> c = 0x3000 \<or> c = 0xFEFF)"

definition trim :: "js_string \<Rightarrow> js_string" where
  "trim s = rev (dropWhile isWhiteSpace (rev (dropWhile isWhiteSpace s)))"

text \<open>String literals of the scenarios: an ASCII text as its code units.\<close>

definition js :: "string \<Rightarrow> js_string" where
  "js s = map of_char s"

subsection \<open>Data model (\<open>types/Todo.ts\<close>)\<close>

text \<open>
  \<open>id\<close> is a JavaScript number that only ever holds a value of \<open>Date.now()\<close>, an integer
  number of milliseconds, and is only compared with \<open>===\<close>; it is an \<open>int\<close> here.
  \<open>createdAt\<close> is a \<open>Date\<close>, represented by its time value in milliseconds.
\<close>

record Todo =
  todo_id :: int
  todo_text :: js_string
  todo_completed :: bool
  todo_createdAt :: int

datatype FilterType = All | Active | Completed

record Stats =
  stats_total :: nat
  stats_completed :: nat
  stats_active :: nat

subsection \<open>State held by the hook\<close>

text \<open>
  \<open>todos\<close> and \<open>filter_st\<close> are the two \<open>useState\<close> cells. \<open>pending\<close> is the queue of
  optimistic actions that the React runtime holds for \<open>useOptimistic\<close>, oldest first; it is
  empty whenever no add is in flight. \<open>useOptimistic\<close> returns the pass-through value
  \<open>todos\<close> with the reducer folded over that queue.
\<close>

record hook_state =
  todos :: "Todo list"
  filter_st :: FilterType
  pending :: "Todo list"

definition initial :: hook_state where
  "initial = \<lparr>todos = [], filter_st = All, pending = []\<rparr>"

definition optimisticReducer :: "Todo list \<Rightarrow> Todo \<Rightarrow> Todo list" where
  "optimisticReducer state optimisticTodo = optimisticTodo # state"

definition optimisticTodos :: "hook_state \<Rightarrow> Todo list" where
  "optimisticTodos st = foldl optimisticReducer (todos st) (pending st)"

definition setTodos :: "(Todo list \<Rightarrow> Todo list) \<Rightarrow> hook_state \<Rightarrow> hook_state" where
  "setTodos f st = st\<lparr>todos := f (todos st)\<rparr>"

definition addOptimisticTodo :: "Todo \<Rightarrow> hook_state \<Rightarrow> hook_state" where
  "addOptimisticTodo t st = st\<lparr>pending := pending st @ [t]\<rparr>"

text \<open>
  Modelled from the spec: the discard of the overlay by the runtime (\<open>the overlay's
  pending action list is cleared\<close>), which is code of React and not of the repository.
  The optimistic actions are applied in the render that follows the call of
  \<open>addOptimisticTodo\<close> and dropped in a later render; \<open>revertOptimistic\<close> is that later
  step.
\<close>

definition revertOptimistic :: "hook_state \<Rightarrow> hook_state" where
  "revertOptimistic st = st\<lparr>pending := []\<rparr>"

subsection \<open>Operations\<close>

text \<open>
  \<open>addTodo\<close> reads the clock twice: \<open>Date.now()\<close> for the id and \<open>new Date()\<close> for
  \<open>createdAt\<close>. Both readings are inputs of the model. \<open>newTodo\<close> is the object literal
  of the source. \<open>addTodo\<close> makes the two calls of the source in their order:
  \<open>addOptimisticTodo\<close> with the new task, then \<open>setTodos\<close> with the updater that prepends
  the same task.
\<close>

definition newTodo :: "int \<Rightarrow> int \<Rightarrow> js_string \<Rightarrow> Todo" where
  "newTodo now created text =
     \<lparr>todo_id = now, todo_text = trim text, todo_completed = False, todo_createdAt = created\<rparr>"

definition addTodo :: "int \<Rightarrow> int \<Rightarrow> js_string \<Rightarrow> hook_state \<Rightarrow> hook_state" where
  "addTodo now created text st =
     (if trim text \<noteq> []
      then setTodos (\<lambda>prev. newTodo now created text # prev)
             (addOptimisticTodo (newTodo now created text) st)
      else st)"

definition toggleTodo :: "int \<Rightarrow> hook_state \<Rightarrow> hook_state" where
  "toggleTodo i st =
     setTodos (\<lambda>prev. map (\<lambda>todo. if todo_id todo = i
                                   then todo\<lparr>todo_completed := \<not> todo_completed todo\<rparr>
                                   else todo) prev) st"

definition deleteTodo :: "int \<Rightarrow> hook_state \<Rightarrow> hook_state" where
  "deleteTodo i st = setTodos (\<lambda>prev. filter (\<lambda>todo. todo_id todo \<noteq> i) prev) st"

definition editTodo :: "int \<Rightarrow> js_string \<Rightarrow> hook_state \<Rightarrow> hook_state" where
  "editTodo i newText st =
     (if trim newText \<noteq> []
      then setTodos (\<lambda>prev. map (\<lambda>todo. if todo_id todo = i
                                         then todo\<lparr>todo_text := trim newText\<rparr>
                                         else todo) prev) st
      else st)"

definition clearCompleted :: "hook_state \<Rightarrow> hook_state" where
  "clearCompleted st = setTodos (\<lambda>prev. filter (\<lambda>todo. \<not> todo_completed todo) prev) st"

text \<open>
  \<open>updateFilter\<close> wraps \<open>setFilter\<close> in \<open>startTransition\<close>; the model is the state once the
  transition has been rendered. The \<open>isPending\<close> flag is not part of the model.
\<close>

definition updateFilter :: "FilterType \<Rightarrow> hook_state \<Rightarrow> hook_state" where
  "updateFilter newFilter st = st\<lparr>filter_st := newFilter\<rparr>"

subsection \<open>Derived values\<close>

fun keeps :: "FilterType \<Rightarrow> Todo \<Rightarrow> bool" where
  "keeps Active todo = (\<not> todo_completed todo)"
| "keeps Completed todo = todo_completed todo"
| "keeps All todo = True"

definition filteredTodos :: "Todo list \<Rightarrow> FilterType \<Rightarrow> Todo list" where
  "filteredTodos opt flt = filter (keeps flt) opt"

definition stats :: "Todo list \<Rightarrow> Stats" where
  "stats opt =
     \<lparr>stats_total = length opt,
      stats_completed = length (filter (\<lambda>todo. todo_completed todo) opt),
      stats_active = length (filter (\<lambda>todo. \<not> todo_completed todo) opt)\<rparr>"

text \<open>The values the hook returns as \<open>todos\<close> and \<open>stats\<close>.\<close>

definition getVisibleTasks :: "hook_state \<Rightarrow> Todo list" where
  "getVisibleTasks st = filteredTodos (optimisticTodos st) (filter_st st)"

definition getStats :: "hook_state \<Rightarrow> Stats" where
  "getStats st = stats (optimisticTodos st)"

subsection \<open>Runs of the engine\<close>

text \<open>
  A run is a sequence of calls of the functions of the hook and of renders in which the
  runtime drops the optimistic actions, from the empty collection.
\<close>

datatype operation =
    AddTask int int js_string
  | ToggleTask int
  | EditTask int js_string
  | DeleteTask int
  | ClearCompleted
  | SetFilter FilterType
  | RevertOptimistic

fun apply_operation :: "hook_state \<Rightarrow> operation \<Rightarrow> hook_state" where
  "apply_operation st (AddTask now created text) = addTodo now created text st"
| "apply_operation st (ToggleTask i) = toggleTodo i st"
| "apply_operation st (EditTask i newText) = editTodo i newText st"
| "apply_operation st (DeleteTask i) = deleteTodo i st"
| "apply_operation st ClearCompleted = clearCompleted st"
| "apply_operation st (SetFilter f) = updateFilter f st"
| "apply_operation st RevertOptimistic = revertOptimistic st"

definition run :: "operation list \<Rightarrow> hook_state" where
  "run ops = foldl apply_operation initial ops"

section \<open>Basic facts\<close>

lemma setTodos_fields:
  "todos (setTodos f st) = f (todos st)"
  "filter_st (setTodos f st) = filter_st st"
  "pending (setTodos f st) = pending st"
  by (simp_all add: setTodos_def)

lemma setTodos_same: "f (todos st) = todos st \<Longrightarrow> setTodos f st = st"
  by (simp add: setTodos_def)

lemma optimisticTodos_rev: "optimisticTodos st = rev (pending st) @ todos st"
proof -
  have "foldl optimisticReducer base q = rev q @ base" for base q
    by (induction q arbitrary: base) (simp_all add: optimisticReducer_def)
  then show ?thesis by (simp add: optimisticTodos_def)
qed

lemma optimisticTodos_settled: "pending st = [] \<Longrightarrow> optimisticTodos st = todos st"
  by (simp add: optimisticTodos_rev)

lemma addOptimisticTodo_fields:
  "todos (addOptimisticTodo t st) = todos st"
  "filter_st (addOptimisticTodo t st) = filter_st st"
  "pending (addOptimisticTodo t st) = pending st @ [t]"
  by (simp_all add: addOptimisticTodo_def)

lemma revertOptimistic_fields:
  "todos (revertOptimistic st) = todos st"
  "filter_st (revertOptimistic st) = filter_st st"
  "pending (revertOptimistic st) = []"
  by (simp_all add: revertOptimistic_def)


lemma trim_ascii_A: "trim (js ''A'') = js ''A''"
  by (simp add: js_def trim_def isWhiteSpace_def)

lemma trim_ascii_B: "trim (js ''B'') = js ''B''"
  by (simp add: js_def trim_def isWhiteSpace_def)

lemma trim_blank: "trim (js ''   '') = []"
  by (simp add: js_def trim_def isWhiteSpace_def)

lemma js_A_B: "js ''A'' \<noteq> []" "js ''B'' \<noteq> []"
  by (simp_all add: js_def)

lemma stats_sum:
  "stats_active (stats xs) + stats_completed (stats xs) = stats_total (stats xs)"
  using sum_length_filter_compl [of todo_completed xs] by (simp add: stats_def)

lemma toggleTodo_unknown: "i \<notin> todo_id ` set (todos st) \<Longrightarrow> toggleTodo i st = st"
  unfolding toggleTodo_def by (rule setTodos_same) (auto intro!: map_idI)

lemma deleteTodo_unknown: "i \<notin> todo_id ` set (todos st) \<Longrightarrow> deleteTodo i st = st"
  unfolding deleteTodo_def by (rule setTodos_same) (auto simp: filter_id_conv)

lemma editTodo_unknown: "i \<notin> todo_id ` set (todos st) \<Longrightarrow> editTodo i newText st = st"
  unfolding editTodo_def by (auto intro!: setTodos_same map_idI)

lemma addTodo_blank: "trim text = [] \<Longrightarrow> addTodo now created text st = st"
  by (simp add: addTodo_def)

lemma editTodo_blank: "trim newText = [] \<Longrightarrow> editTodo i newText st = st"
  by (simp add: editTodo_def)

lemma length_filter_distinct_id:
  "distinct (map todo_id xs) \<Longrightarrow> i \<in> todo_id ` set xs \<Longrightarrow>
   Suc (length (filter (\<lambda>todo. todo_id todo \<noteq> i) xs)) = length xs"
proof (induction xs)
  case Nil
  then show ?case by simp
next
  case (Cons x xs)
  show ?case
  proof (cases "todo_id x = i")
    case True
    with Cons.prems have "i \<notin> todo_id ` set xs" by auto
    then have "filter (\<lambda>todo. todo_id todo \<noteq> i) xs = xs"
      by (auto simp: filter_id_conv)
    with True show ?thesis by simp
  next
    case False
    with Cons show ?thesis by auto
  qed
qed

section \<open>Stats\<close>

text \<open>
  C2. In every state the stats returned by the hook satisfy
  \<open>active + completed = total\<close>; \<open>total\<close> is the size of the overlay-inclusive
  collection, and \<open>active\<close>, which the source counts with a filter of its own, equals
  \<open>total - completed\<close>. In a state with no optimistic action queued, \<open>total\<close> is the
  size of the canonical collection.
\<close>

theorem stats_invariant:
  "stats_active (getStats st) + stats_completed (getStats st) = stats_total (getStats st)
   \<and> stats_total (getStats st) = length (optimisticTodos st)
   \<and> stats_active (getStats st) = stats_total (getStats st) - stats_completed (getStats st)
   \<and> (pending st = [] \<longrightarrow> stats_total (getStats st) = length (todos st))"
proof -
  have sum: "stats_active (getStats st) + stats_completed (getStats st) = stats_total (getStats st)"
    by (simp add: getStats_def stats_sum)
  have total: "stats_total (getStats st) = length (optimisticTodos st)"
    by (simp add: getStats_def stats_def)
  have reach: "pending st = [] \<longrightarrow> stats_total (getStats st) = length (todos st)"
    by (simp add: getStats_def stats_def optimisticTodos_settled)
  from sum have "stats_active (getStats st) = stats_total (getStats st) - stats_completed (getStats st)"
    by arith
  with sum total reach show ?thesis by blast
qed

lemma run_A_B_reverted:
  "run [AddTask 1000 1000 (js ''A''), AddTask 2000 2000 (js ''B''), RevertOptimistic]
     = \<lparr>todos = [\<lparr>todo_id = 2000, todo_text = js ''B'', todo_completed = False,
                   todo_createdAt = 2000\<rparr>,
                 \<lparr>todo_id = 1000, todo_text = js ''A'', todo_completed = False,
                   todo_createdAt = 1000\<rparr>],
        filter_st = All, pending = []\<rparr>"
  by (simp add: run_def initial_def addTodo_def setTodos_def addOptimisticTodo_def
      revertOptimistic_def newTodo_def trim_ascii_A trim_ascii_B js_A_B)

theorem stats_invariant_witness:
  "stats_total (getStats
       (run [AddTask 1000 1000 (js ''A''), AddTask 2000 2000 (js ''B''), RevertOptimistic]))
     = 2
   \<and> stats_active (getStats
       (run [AddTask 1000 1000 (js ''A''), AddTask 2000 2000 (js ''B''), RevertOptimistic]))
     + stats_completed (getStats
       (run [AddTask 1000 1000 (js ''A''), AddTask 2000 2000 (js ''B''), RevertOptimistic]))
     = 2"
proof -
  let ?st = "run [AddTask 1000 1000 (js ''A''), AddTask 2000 2000 (js ''B''), RevertOptimistic]"
  have settled: "pending ?st = []" and len: "length (todos ?st) = 2"
    by (simp_all add: run_A_B_reverted)
  from stats_invariant [of ?st] settled
  have "stats_total (getStats ?st) = length (todos ?st)"
    by blast
  with len have total: "stats_total (getStats ?st) = 2"
    by simp
  from stats_invariant [of ?st]
  have "stats_active (getStats ?st) + stats_completed (getStats ?st) = stats_total (getStats ?st)"
    by blast
  with total show ?thesis
    by simp
qed

section \<open>Toggling twice\<close>

text \<open>
  C10. Toggling the same id twice in succession gives back the original state, whether or
  not a task has that id; so the stats and the view under every filter criterion are the
  same as before.
\<close>

theorem toggleTodo_involution:
  "toggleTodo i (toggleTodo i st) = st
   \<and> getStats (toggleTodo i (toggleTodo i st)) = getStats st
   \<and> filteredTodos (optimisticTodos (toggleTodo i (toggleTodo i st))) f
       = filteredTodos (optimisticTodos st) f"
proof -
  have "toggleTodo i (toggleTodo i st) = st"
    by (simp add: toggleTodo_def setTodos_def comp_def map_idI)
  then show ?thesis by simp
qed

section \<open>Adding a task\<close>


lemma run_add_A_B:
  "run [AddTask n1 c1 (js ''A''), AddTask n2 c2 (js ''B'')]
     = \<lparr>todos = [newTodo n2 c2 (js ''B''), newTodo n1 c1 (js ''A'')],
        filter_st = All,
        pending = [newTodo n1 c1 (js ''A''), newTodo n2 c2 (js ''B'')]\<rparr>"
  by (simp add: run_def initial_def addTodo_def setTodos_def addOptimisticTodo_def
      trim_ascii_A trim_ascii_B js_A_B)






section \<open>Stats and the filter\<close>

lemma updateFilter_fields:
  "todos (updateFilter f st) = todos st"
  "pending (updateFilter f st) = pending st"
  "filter_st (updateFilter f st) = f"
  by (simp_all add: updateFilter_def)

lemma optimisticTodos_updateFilter: "optimisticTodos (updateFilter f st) = optimisticTodos st"
  by (simp add: optimisticTodos_def updateFilter_fields)

text \<open>
  C4. The stats are computed from the unfiltered, overlay-inclusive collection: changing the
  filter to any criterion leaves them unchanged. With two tasks, one of them completed,
  the view under \<open>Active\<close> holds the incomplete task only, and the stats still count both.
\<close>

theorem stats_unfiltered:
  "getStats (updateFilter f st) = getStats st
   \<and> getStats st = stats (optimisticTodos st)
   \<and> (todo_completed a \<and> \<not> todo_completed b
        \<and> (optimisticTodos st = [a, b] \<or> optimisticTodos st = [b, a]) \<longrightarrow>
        getVisibleTasks (updateFilter Active st) = [b]
        \<and> getStats (updateFilter Active st)
            = \<lparr>stats_total = 2, stats_completed = 1, stats_active = 1\<rparr>)"
proof -
  have same: "getStats (updateFilter f st) = getStats st" for f
    by (simp add: getStats_def optimisticTodos_updateFilter)
  have scen: "getVisibleTasks (updateFilter Active st) = [b]
        \<and> getStats (updateFilter Active st)
            = \<lparr>stats_total = 2, stats_completed = 1, stats_active = 1\<rparr>"
    if "todo_completed a" "\<not> todo_completed b"
      "optimisticTodos st = [a, b] \<or> optimisticTodos st = [b, a]"
    using that
    by (auto simp: getVisibleTasks_def getStats_def stats_def filteredTodos_def
        optimisticTodos_updateFilter updateFilter_fields)
  from same scen show ?thesis by (simp add: getStats_def)
qed

theorem stats_unfiltered_witness:
  "getVisibleTasks (updateFilter Active
       (run [AddTask 1000 1000 (js ''A''), AddTask 2000 2000 (js ''B''), ToggleTask 1000,
             RevertOptimistic]))
     = [\<lparr>todo_id = 2000, todo_text = js ''B'', todo_completed = False, todo_createdAt = 2000\<rparr>]
   \<and> getStats (updateFilter Active
       (run [AddTask 1000 1000 (js ''A''), AddTask 2000 2000 (js ''B''), ToggleTask 1000,
             RevertOptimistic]))
     = \<lparr>stats_total = 2, stats_completed = 1, stats_active = 1\<rparr>"
proof -
  let ?a = "\<lparr>todo_id = 1000, todo_text = js ''A'', todo_completed = True, todo_createdAt = 1000\<rparr>"
  let ?b = "\<lparr>todo_id = 2000, todo_text = js ''B'', todo_completed = False, todo_createdAt = 2000\<rparr>"
  let ?st = "run [AddTask 1000 1000 (js ''A''), AddTask 2000 2000 (js ''B''), ToggleTask 1000,
      RevertOptimistic]"
  have "?st = \<lparr>todos = [?b, ?a], filter_st = All, pending = []\<rparr>"
    by (simp add: run_def initial_def addTodo_def toggleTodo_def setTodos_def
        addOptimisticTodo_def revertOptimistic_def newTodo_def
        trim_ascii_A trim_ascii_B js_A_B)
  then have "optimisticTodos ?st = [?b, ?a]"
    by (simp add: optimisticTodos_rev)
  then have "todo_completed ?a \<and> \<not> todo_completed ?b
      \<and> (optimisticTodos ?st = [?a, ?b] \<or> optimisticTodos ?st = [?b, ?a])"
    by simp
  with stats_unfiltered [of Active ?st ?a ?b] show ?thesis
    by blast
qed

section \<open>The visible sequence\<close>

text \<open>
  C5. The visible sequence is a function of the collection and the filter alone: \<open>All\<close>
  gives the whole collection, \<open>Active\<close> exactly the tasks that are not completed,
  \<open>Completed\<close> exactly the completed ones, each in the order of the collection; the empty
  collection gives the empty sequence under every criterion.
\<close>

theorem filteredTodos_spec:
  "filteredTodos xs All = xs
   \<and> filteredTodos xs Active = filter (\<lambda>todo. \<not> todo_completed todo) xs
   \<and> filteredTodos xs Completed = filter (\<lambda>todo. todo_completed todo) xs
   \<and> subseq (filteredTodos xs f) xs
   \<and> filteredTodos [] f = []
   \<and> filteredTodos (filteredTodos xs f) f = filteredTodos xs f
   \<and> getVisibleTasks st = filteredTodos (optimisticTodos st) (filter_st st)"
proof -
  have "keeps All = (\<lambda>todo. True)" "keeps Active = (\<lambda>todo. \<not> todo_completed todo)"
    "keeps Completed = (\<lambda>todo. todo_completed todo)"
    by (simp_all add: fun_eq_iff)
  then show ?thesis
    by (simp add: filteredTodos_def getVisibleTasks_def)
qed

section \<open>Toggling a task\<close>

lemma toggleTodo_fields:
  "todos (toggleTodo i st)
     = map (\<lambda>todo. if todo_id todo = i
                     then todo\<lparr>todo_completed := \<not> todo_completed todo\<rparr> else todo) (todos st)"
  "filter_st (toggleTodo i st) = filter_st st"
  "pending (toggleTodo i st) = pending st"
  by (simp_all add: toggleTodo_def setTodos_fields)

text \<open>
  C6. \<open>toggleTodo i\<close> keeps the length and the order of the collection; at every position
  a task whose id is \<open>i\<close> has its \<open>completed\<close> flag flipped and nothing else changed (id,
  text and \<open>createdAt\<close> are as before), and a task with another id is the same value.
  When no task has the id \<open>i\<close> the whole state is unchanged. The filter is never touched.
\<close>

theorem toggleTodo_spec:
  "length (todos (toggleTodo i st)) = length (todos st)
   \<and> (\<forall>n<length (todos st).
        (todo_id (todos st ! n) = i \<longrightarrow>
           todos (toggleTodo i st) ! n
             = (todos st ! n)\<lparr>todo_completed := \<not> todo_completed (todos st ! n)\<rparr>)
        \<and> (todo_id (todos st ! n) \<noteq> i \<longrightarrow> todos (toggleTodo i st) ! n = todos st ! n)
        \<and> todo_id (todos (toggleTodo i st) ! n) = todo_id (todos st ! n)
        \<and> todo_text (todos (toggleTodo i st) ! n) = todo_text (todos st ! n)
        \<and> todo_createdAt (todos (toggleTodo i st) ! n) = todo_createdAt (todos st ! n))
   \<and> (i \<notin> todo_id ` set (todos st) \<longrightarrow> toggleTodo i st = st)
   \<and> filter_st (toggleTodo i st) = filter_st st
   \<and> pending (toggleTodo i st) = pending st"
proof -
  have len: "length (todos (toggleTodo i st)) = length (todos st)"
    by (simp add: toggleTodo_fields)
  have pos: "\<forall>n<length (todos st).
        (todo_id (todos st ! n) = i \<longrightarrow>
           todos (toggleTodo i st) ! n
             = (todos st ! n)\<lparr>todo_completed := \<not> todo_completed (todos st ! n)\<rparr>)
        \<and> (todo_id (todos st ! n) \<noteq> i \<longrightarrow> todos (toggleTodo i st) ! n = todos st ! n)
        \<and> todo_id (todos (toggleTodo i st) ! n) = todo_id (todos st ! n)
        \<and> todo_text (todos (toggleTodo i st) ! n) = todo_text (todos st ! n)
        \<and> todo_createdAt (todos (toggleTodo i st) ! n) = todo_createdAt (todos st ! n)"
    by (simp add: toggleTodo_fields)
  have unknown: "i \<notin> todo_id ` set (todos st) \<longrightarrow> toggleTodo i st = st"
    by (simp add: toggleTodo_unknown)
  from len pos unknown show ?thesis
    by (simp add: toggleTodo_fields)
qed

lemma run_A_B:
  "run [AddTask 1000 1000 (js ''A''), AddTask 2000 2000 (js ''B'')]
     = \<lparr>todos = [\<lparr>todo_id = 2000, todo_text = js ''B'', todo_completed = False,
                   todo_createdAt = 2000\<rparr>,
                 \<lparr>todo_id = 1000, todo_text = js ''A'', todo_completed = False,
                   todo_createdAt = 1000\<rparr>],
        filter_st = All,
        pending = [\<lparr>todo_id = 1000, todo_text = js ''A'', todo_completed = False,
                     todo_createdAt = 1000\<rparr>,
                   \<lparr>todo_id = 2000, todo_text = js ''B'', todo_completed = False,
                     todo_createdAt = 2000\<rparr>]\<rparr>"
  by (simp add: run_add_A_B newTodo_def trim_ascii_A trim_ascii_B)

theorem toggleTodo_spec_witness:
  "todos (toggleTodo 1000 (run [AddTask 1000 1000 (js ''A''), AddTask 2000 2000 (js ''B'')])) ! 1
     = \<lparr>todo_id = 1000, todo_text = js ''A'', todo_completed = True, todo_createdAt = 1000\<rparr>
   \<and> todos (toggleTodo 1000 (run [AddTask 1000 1000 (js ''A''), AddTask 2000 2000 (js ''B'')])) ! 0
     = \<lparr>todo_id = 2000, todo_text = js ''B'', todo_completed = False, todo_createdAt = 2000\<rparr>
   \<and> toggleTodo 3000 (run [AddTask 1000 1000 (js ''A''), AddTask 2000 2000 (js ''B'')])
     = run [AddTask 1000 1000 (js ''A''), AddTask 2000 2000 (js ''B'')]"
proof -
  let ?st = "run [AddTask 1000 1000 (js ''A''), AddTask 2000 2000 (js ''B'')]"
  have one: "1 < length (todos ?st)" "todo_id (todos ?st ! 1) = 1000"
    and zero: "0 < length (todos ?st)" "todo_id (todos ?st ! 0) \<noteq> 1000"
    and unknown: "3000 \<notin> todo_id ` set (todos ?st)"
    by (simp_all add: run_A_B)
  from toggleTodo_spec [of 1000 ?st] one
  have "todos (toggleTodo 1000 ?st) ! 1
      = (todos ?st ! 1)\<lparr>todo_completed := \<not> todo_completed (todos ?st ! 1)\<rparr>"
    by blast
  moreover from toggleTodo_spec [of 1000 ?st] zero
  have "todos (toggleTodo 1000 ?st) ! 0 = todos ?st ! 0"
    by blast
  moreover from toggleTodo_spec [of 3000 ?st] unknown
  have "toggleTodo 3000 ?st = ?st"
    by blast
  ultimately show ?thesis
    by (simp add: run_A_B)
qed

section \<open>Editing a task\<close>

lemma editTodo_fields:
  "trim newText \<noteq> [] \<Longrightarrow>
   todos (editTodo i newText st)
     = map (\<lambda>todo. if todo_id todo = i then todo\<lparr>todo_text := trim newText\<rparr> else todo)
         (todos st)"
  "filter_st (editTodo i newText st) = filter_st st"
  "pending (editTodo i newText st) = pending st"
  by (simp_all add: editTodo_def setTodos_fields)

text \<open>
  C7. \<open>editTodo i newText\<close> with a text whose trim is empty returns the state unchanged, so
  the text of the task is kept. Otherwise the collection keeps its length and order; at
  every position a task whose id is \<open>i\<close> has its text replaced by the trimmed text and its
  id, \<open>completed\<close> and \<open>createdAt\<close> kept, and a task with another id is the same value.
\<close>

theorem editTodo_spec:
  "(trim newText = [] \<longrightarrow> editTodo i newText st = st)
   \<and> (trim newText \<noteq> [] \<longrightarrow>
        length (todos (editTodo i newText st)) = length (todos st)
        \<and> (\<forall>n<length (todos st).
             (todo_id (todos st ! n) = i \<longrightarrow>
                todos (editTodo i newText st) ! n = (todos st ! n)\<lparr>todo_text := trim newText\<rparr>)
             \<and> (todo_id (todos st ! n) \<noteq> i \<longrightarrow>
                  todos (editTodo i newText st) ! n = todos st ! n)
             \<and> todo_id (todos (editTodo i newText st) ! n) = todo_id (todos st ! n)
             \<and> todo_completed (todos (editTodo i newText st) ! n)
                 = todo_completed (todos st ! n)
             \<and> todo_createdAt (todos (editTodo i newText st) ! n)
                 = todo_createdAt (todos st ! n)))
   \<and> filter_st (editTodo i newText st) = filter_st st
   \<and> pending (editTodo i newText st) = pending st"
proof -
  have blank: "trim newText = [] \<longrightarrow> editTodo i newText st = st"
    by (simp add: editTodo_blank)
  have edit: "trim newText \<noteq> [] \<longrightarrow>
        length (todos (editTodo i newText st)) = length (todos st)
        \<and> (\<forall>n<length (todos st).
             (todo_id (todos st ! n) = i \<longrightarrow>
                todos (editTodo i newText st) ! n = (todos st ! n)\<lparr>todo_text := trim newText\<rparr>)
             \<and> (todo_id (todos st ! n) \<noteq> i \<longrightarrow>
                  todos (editTodo i newText st) ! n = todos st ! n)
             \<and> todo_id (todos (editTodo i newText st) ! n) = todo_id (todos st ! n)
             \<and> todo_completed (todos (editTodo i newText st) ! n)
                 = todo_completed (todos st ! n)
             \<and> todo_createdAt (todos (editTodo i newText st) ! n)
                 = todo_createdAt (todos st ! n))"
    by (simp add: editTodo_fields)
  from blank edit show ?thesis
    by (simp add: editTodo_fields)
qed

lemma trim_ascii_C: "trim (js '' C '') = js ''C''"
  by (simp add: js_def trim_def isWhiteSpace_def)

lemma trim_empty: "trim (js '''') = []"
  by (simp add: js_def trim_def)

theorem editTodo_spec_witness:
  "editTodo 1000 (js '''') (run [AddTask 1000 1000 (js ''A''), AddTask 2000 2000 (js ''B'')])
     = run [AddTask 1000 1000 (js ''A''), AddTask 2000 2000 (js ''B'')]
   \<and> todos (editTodo 1000 (js '' C '')
        (run [AddTask 1000 1000 (js ''A''), AddTask 2000 2000 (js ''B'')])) ! 1
     = \<lparr>todo_id = 1000, todo_text = js ''C'', todo_completed = False, todo_createdAt = 1000\<rparr>
   \<and> todos (editTodo 1000 (js '' C '')
        (run [AddTask 1000 1000 (js ''A''), AddTask 2000 2000 (js ''B'')])) ! 0
     = \<lparr>todo_id = 2000, todo_text = js ''B'', todo_completed = False, todo_createdAt = 2000\<rparr>"
proof -
  let ?st = "run [AddTask 1000 1000 (js ''A''), AddTask 2000 2000 (js ''B'')]"
  have nonblank: "trim (js '' C '') \<noteq> []"
    by (simp add: js_def trim_def isWhiteSpace_def)
  have one: "1 < length (todos ?st)" "todo_id (todos ?st ! 1) = 1000"
    and zero: "0 < length (todos ?st)" "todo_id (todos ?st ! 0) \<noteq> 1000"
    by (simp_all add: run_A_B)
  from editTodo_spec [of "js ''''" 1000 ?st] trim_empty
  have "editTodo 1000 (js '''') ?st = ?st"
    by blast
  moreover from editTodo_spec [of "js '' C ''" 1000 ?st] nonblank one
  have "todos (editTodo 1000 (js '' C '') ?st) ! 1
      = (todos ?st ! 1)\<lparr>todo_text := trim (js '' C '')\<rparr>"
    by blast
  moreover from editTodo_spec [of "js '' C ''" 1000 ?st] nonblank zero
  have "todos (editTodo 1000 (js '' C '') ?st) ! 0 = todos ?st ! 0"
    by blast
  ultimately show ?thesis
    by (simp add: run_A_B trim_ascii_C)
qed

section \<open>Deleting a task and invalid inputs\<close>

lemma deleteTodo_fields:
  "todos (deleteTodo i st) = filter (\<lambda>todo. todo_id todo \<noteq> i) (todos st)"
  "filter_st (deleteTodo i st) = filter_st st"
  "pending (deleteTodo i st) = pending st"
  by (simp_all add: deleteTodo_def setTodos_fields)

text \<open>
  C8. \<open>deleteTodo i\<close> keeps exactly the tasks whose id is not \<open>i\<close>, in their order: the
  result is a subsequence of the collection, holds no task with the id \<open>i\<close> and every task
  with another id; when the ids are distinct and \<open>i\<close> is present, exactly one task goes.
  When no task has the id the state is unchanged. The operations are total functions on
  states, with no error result, and every invalid input returns the state as it was: a
  blank text for \<open>addTodo\<close> and \<open>editTodo\<close>, an unknown id for \<open>toggleTodo\<close>,
  \<open>deleteTodo\<close> and \<open>editTodo\<close>.
\<close>

theorem deleteTodo_spec:
  "todos (deleteTodo i st) = filter (\<lambda>todo. todo_id todo \<noteq> i) (todos st)
   \<and> subseq (todos (deleteTodo i st)) (todos st)
   \<and> set (todos (deleteTodo i st)) = set (todos st) - {todo. todo_id todo = i}
   \<and> i \<notin> todo_id ` set (todos (deleteTodo i st))
   \<and> (distinct (map todo_id (todos st)) \<and> i \<in> todo_id ` set (todos st) \<longrightarrow>
        Suc (length (todos (deleteTodo i st))) = length (todos st))
   \<and> filter_st (deleteTodo i st) = filter_st st
   \<and> pending (deleteTodo i st) = pending st
   \<and> (i \<notin> todo_id ` set (todos st) \<longrightarrow>
        deleteTodo i st = st \<and> toggleTodo i st = st \<and> editTodo i text st = st)
   \<and> (trim text = [] \<longrightarrow> addTodo now created text st = st \<and> editTodo i text st = st)"
proof -
  have sub: "subseq (todos (deleteTodo i st)) (todos st)"
    by (simp add: deleteTodo_fields)
  have elems: "set (todos (deleteTodo i st)) = set (todos st) - {todo. todo_id todo = i}"
    by (auto simp: deleteTodo_fields)
  have gone: "i \<notin> todo_id ` set (todos (deleteTodo i st))"
    by (auto simp: deleteTodo_fields)
  have one: "distinct (map todo_id (todos st)) \<and> i \<in> todo_id ` set (todos st) \<longrightarrow>
        Suc (length (todos (deleteTodo i st))) = length (todos st)"
    by (simp add: deleteTodo_fields length_filter_distinct_id)
  have unknown: "i \<notin> todo_id ` set (todos st) \<longrightarrow>
        deleteTodo i st = st \<and> toggleTodo i st = st \<and> editTodo i text st = st"
    by (simp add: deleteTodo_unknown toggleTodo_unknown editTodo_unknown)
  have blank: "trim text = [] \<longrightarrow> addTodo now created text st = st \<and> editTodo i text st = st"
    by (simp add: addTodo_blank editTodo_blank)
  from sub elems gone one unknown blank deleteTodo_fields [of i st] show ?thesis
    by blast
qed

theorem deleteTodo_spec_witness:
  "todos (deleteTodo 1000 (run [AddTask 1000 1000 (js ''A''), AddTask 2000 2000 (js ''B'')]))
     = [\<lparr>todo_id = 2000, todo_text = js ''B'', todo_completed = False, todo_createdAt = 2000\<rparr>]
   \<and> Suc (length (todos (deleteTodo 1000
        (run [AddTask 1000 1000 (js ''A''), AddTask 2000 2000 (js ''B'')])))) = 2
   \<and> deleteTodo 3000 (run [AddTask 1000 1000 (js ''A''), AddTask 2000 2000 (js ''B'')])
     = run [AddTask 1000 1000 (js ''A''), AddTask 2000 2000 (js ''B'')]
   \<and> toggleTodo 3000 (run [AddTask 1000 1000 (js ''A''), AddTask 2000 2000 (js ''B'')])
     = run [AddTask 1000 1000 (js ''A''), AddTask 2000 2000 (js ''B'')]
   \<and> addTodo 3000 3000 (js ''   '')
        (run [AddTask 1000 1000 (js ''A''), AddTask 2000 2000 (js ''B'')])
     = run [AddTask 1000 1000 (js ''A''), AddTask 2000 2000 (js ''B'')]
   \<and> editTodo 1000 (js ''   '')
        (run [AddTask 1000 1000 (js ''A''), AddTask 2000 2000 (js ''B'')])
     = run [AddTask 1000 1000 (js ''A''), AddTask 2000 2000 (js ''B'')]"
proof -
  let ?st = "run [AddTask 1000 1000 (js ''A''), AddTask 2000 2000 (js ''B'')]"
  have present: "distinct (map todo_id (todos ?st)) \<and> 1000 \<in> todo_id ` set (todos ?st)"
    and unknown: "3000 \<notin> todo_id ` set (todos ?st)"
    and len: "length (todos ?st) = 2"
    by (simp_all add: run_A_B)
  from deleteTodo_spec [of 1000 ?st "js ''   ''" 3000 3000]
  have "todos (deleteTodo 1000 ?st) = filter (\<lambda>todo. todo_id todo \<noteq> 1000) (todos ?st)"
    by blast
  then have del: "todos (deleteTodo 1000 ?st)
      = [\<lparr>todo_id = 2000, todo_text = js ''B'', todo_completed = False,
          todo_createdAt = 2000\<rparr>]"
    by (simp add: run_A_B)
  from deleteTodo_spec [of 1000 ?st "js ''   ''" 3000 3000] present
  have "Suc (length (todos (deleteTodo 1000 ?st))) = length (todos ?st)"
    by blast
  with len have cnt: "Suc (length (todos (deleteTodo 1000 ?st))) = 2"
    by simp
  from deleteTodo_spec [of 3000 ?st "js ''   ''" 3000 3000] unknown
  have noop: "deleteTodo 3000 ?st = ?st \<and> toggleTodo 3000 ?st = ?st"
    by blast
  from deleteTodo_spec [of 1000 ?st "js ''   ''" 3000 3000] trim_blank
  have blank: "addTodo 3000 3000 (js ''   '') ?st = ?st \<and> editTodo 1000 (js ''   '') ?st = ?st"
    by blast
  from del cnt noop blank show ?thesis
    by blast
qed

section \<open>Clearing the completed tasks\<close>

lemma clearCompleted_fields:
  "todos (clearCompleted st) = filter (\<lambda>todo. \<not> todo_completed todo) (todos st)"
  "filter_st (clearCompleted st) = filter_st st"
  "pending (clearCompleted st) = pending st"
  by (simp_all add: clearCompleted_def setTodos_fields)

text \<open>
  C9. \<open>clearCompleted\<close> is one state transformer that keeps exactly the tasks that are not
  completed, in their order, and removes every completed one. When the collection has
  three tasks of which two are completed (and no add is in flight), the result has exactly
  one task, which is not completed, and the stats are total 1, active 1, completed 0.
\<close>

theorem clearCompleted_spec:
  "todos (clearCompleted st) = filter (\<lambda>todo. \<not> todo_completed todo) (todos st)
   \<and> subseq (todos (clearCompleted st)) (todos st)
   \<and> set (todos (clearCompleted st)) = set (todos st) - {todo. todo_completed todo}
   \<and> filter_st (clearCompleted st) = filter_st st
   \<and> pending (clearCompleted st) = pending st
   \<and> (pending st = [] \<and> length (todos st) = 3
        \<and> length (filter (\<lambda>todo. todo_completed todo) (todos st)) = 2 \<longrightarrow>
        length (todos (clearCompleted st)) = 1
        \<and> \<not> todo_completed (hd (todos (clearCompleted st)))
        \<and> getStats (clearCompleted st)
            = \<lparr>stats_total = 1, stats_completed = 0, stats_active = 1\<rparr>)"
proof -
  have sub: "subseq (todos (clearCompleted st)) (todos st)"
    by (simp add: clearCompleted_fields)
  have elems: "set (todos (clearCompleted st)) = set (todos st) - {todo. todo_completed todo}"
    by (auto simp: clearCompleted_fields)
  have scen: "pending st = [] \<and> length (todos st) = 3
        \<and> length (filter (\<lambda>todo. todo_completed todo) (todos st)) = 2 \<longrightarrow>
        length (todos (clearCompleted st)) = 1
        \<and> \<not> todo_completed (hd (todos (clearCompleted st)))
        \<and> getStats (clearCompleted st)
            = \<lparr>stats_total = 1, stats_completed = 0, stats_active = 1\<rparr>"
  proof (intro impI, elim conjE)
    assume settled: "pending st = []" and three: "length (todos st) = 3"
      and two: "length (filter (\<lambda>todo. todo_completed todo) (todos st)) = 2"
    let ?rest = "filter (\<lambda>todo. \<not> todo_completed todo) (todos st)"
    from sum_length_filter_compl [of todo_completed "todos st"] three two
    have len: "length ?rest = 1"
      by simp
    then obtain t where rest: "?rest = [t]"
      by (cases ?rest) simp_all
    then have "t \<in> set ?rest"
      by simp
    then have active: "\<not> todo_completed t"
      by simp
    have opt: "optimisticTodos (clearCompleted st) = [t]"
      using settled rest by (simp add: optimisticTodos_rev clearCompleted_fields)
    from rest active opt
    show "length (todos (clearCompleted st)) = 1
        \<and> \<not> todo_completed (hd (todos (clearCompleted st)))
        \<and> getStats (clearCompleted st)
            = \<lparr>stats_total = 1, stats_completed = 0, stats_active = 1\<rparr>"
      by (simp add: clearCompleted_fields getStats_def stats_def)
  qed
  from sub elems scen clearCompleted_fields [of st] show ?thesis
    by blast
qed

theorem clearCompleted_spec_witness:
  "todos (clearCompleted (run [AddTask 1000 1000 (js ''A''), AddTask 2000 2000 (js ''B''),
       AddTask 3000 3000 (js ''A''), ToggleTask 1000, ToggleTask 3000, RevertOptimistic]))
     = [\<lparr>todo_id = 2000, todo_text = js ''B'', todo_completed = False, todo_createdAt = 2000\<rparr>]
   \<and> getStats (clearCompleted (run [AddTask 1000 1000 (js ''A''), AddTask 2000 2000 (js ''B''),
       AddTask 3000 3000 (js ''A''), ToggleTask 1000, ToggleTask 3000, RevertOptimistic]))
     = \<lparr>stats_total = 1, stats_completed = 0, stats_active = 1\<rparr>"
proof -
  let ?st = "run [AddTask 1000 1000 (js ''A''), AddTask 2000 2000 (js ''B''),
       AddTask 3000 3000 (js ''A''), ToggleTask 1000, ToggleTask 3000, RevertOptimistic]"
  have st: "?st = \<lparr>todos =
       [\<lparr>todo_id = 3000, todo_text = js ''A'', todo_completed = True, todo_createdAt = 3000\<rparr>,
        \<lparr>todo_id = 2000, todo_text = js ''B'', todo_completed = False, todo_createdAt = 2000\<rparr>,
        \<lparr>todo_id = 1000, todo_text = js ''A'', todo_completed = True, todo_createdAt = 1000\<rparr>],
       filter_st = All, pending = []\<rparr>"
    by (simp add: run_def initial_def addTodo_def toggleTodo_def setTodos_def
        addOptimisticTodo_def revertOptimistic_def newTodo_def
        trim_ascii_A trim_ascii_B js_A_B)
  have pre: "pending ?st = [] \<and> length (todos ?st) = 3
      \<and> length (filter (\<lambda>todo. todo_completed todo) (todos ?st)) = 2"
    by (simp add: st)
  from clearCompleted_spec [of ?st]
  have "todos (clearCompleted ?st) = filter (\<lambda>todo. \<not> todo_completed todo) (todos ?st)"
    by blast
  then have kept: "todos (clearCompleted ?st)
      = [\<lparr>todo_id = 2000, todo_text = js ''B'', todo_completed = False,
          todo_createdAt = 2000\<rparr>]"
    by (simp add: st)
  from clearCompleted_spec [of ?st] pre
  have "getStats (clearCompleted ?st)
      = \<lparr>stats_total = 1, stats_completed = 0, stats_active = 1\<rparr>"
    by blast
  with kept show ?thesis
    by blast
qed

section \<open>Ids\<close>

text \<open>
  Every operation but \<open>addTodo\<close> keeps the ids distinct, and so does \<open>addTodo\<close> when the
  clock reading is not the id of a task of the collection.
\<close>

lemma distinct_ids_filter:
  "distinct (map todo_id xs) \<Longrightarrow> distinct (map todo_id (filter P xs))"
  by (simp add: distinct_map_filter)

lemma apply_operation_distinct_ids:
  assumes "distinct (map todo_id (todos st))"
    and "\<And>now created content. x = AddTask now created content \<Longrightarrow> now \<notin> todo_id ` set (todos st)"
  shows "distinct (map todo_id (todos (apply_operation st x)))"
proof (cases x)
  case (AddTask clock made content)
  with assms show ?thesis
    by (simp add: addTodo_def setTodos_fields addOptimisticTodo_fields newTodo_def)
next
  case (ToggleTask i)
  have "map todo_id (todos (toggleTodo i st)) = map todo_id (todos st)"
    by (simp add: toggleTodo_fields)
  with assms(1) ToggleTask show ?thesis by simp
next
  case (EditTask i newText)
  have "map todo_id (todos (editTodo i newText st)) = map todo_id (todos st)"
    by (simp add: editTodo_def setTodos_fields)
  with assms(1) EditTask show ?thesis by simp
next
  case (DeleteTask i)
  with assms(1) show ?thesis
    by (simp add: deleteTodo_fields distinct_ids_filter)
next
  case ClearCompleted
  with assms(1) show ?thesis
    by (simp add: clearCompleted_fields distinct_ids_filter)
next
  case (SetFilter f)
  with assms(1) show ?thesis
    by (simp add: updateFilter_fields)
next
  case RevertOptimistic
  with assms(1) show ?thesis
    by (simp add: revertOptimistic_fields)
qed

text \<open>
  C1. The claim is that in every state reached from the empty collection no two tasks
  share an id, each id made by \<open>addTodo\<close> being fresh. The id of a new task is the clock
  reading \<open>Date.now()\<close>: two adds that read the same millisecond give two tasks with the
  same id, so the ids of a reachable collection are not distinct, and toggling that id
  flips both tasks.
\<close>

theorem addTodo_same_millisecond_shares_id:
  "map todo_id (todos (run [AddTask 1000 1000 (js ''A''), AddTask 1000 1000 (js ''B'')]))
     = [1000, 1000]
   \<and> \<not> distinct (map todo_id
         (todos (run [AddTask 1000 1000 (js ''A''), AddTask 1000 1000 (js ''B'')])))
   \<and> map todo_completed
       (todos (run [AddTask 1000 1000 (js ''A''), AddTask 1000 1000 (js ''B''),
                    ToggleTask 1000]))
     = [True, True]"
  by (simp add: run_def initial_def addTodo_def toggleTodo_def setTodos_def
      addOptimisticTodo_def newTodo_def trim_ascii_A trim_ascii_B js_A_B)

end
